theory Spec2Isabelle
  imports Main
begin

section \<open>Python values and strings\<close>

text \<open>
  The profile is the dictionary that \<^verbatim>\<open>load_profile\<close> reads from \<^verbatim>\<open>profile.json\<close>.
  Its values are JSON scalars; the model keeps the four kinds the handlers can tell
  apart (null, booleans, integers, strings). Characters are code points below 256.
\<close>

datatype pyval = PNone | PBool bool | PInt int | PStr string

datatype py_error = AttributeError | TypeError

type_synonym profile = "string \<rightharpoonup> pyval"

text \<open>\<^verbatim>\<open>d.get(key, default)\<close>\<close>

definition dict_get :: "profile \<Rightarrow> string \<Rightarrow> pyval \<Rightarrow> pyval" where
  "dict_get d k dflt = (case d k of None \<Rightarrow> dflt | Some v \<Rightarrow> v)"

text \<open>Truth value of a Python object, as \<^verbatim>\<open>if x:\<close> tests it.\<close>

fun truthy :: "pyval \<Rightarrow> bool" where
  "truthy PNone = False"
| "truthy (PBool b) = b"
| "truthy (PInt i) = (i \<noteq> 0)"
| "truthy (PStr s) = (s \<noteq> [])"

text \<open>
  \<^verbatim>\<open>str.lower()\<close> on code points below 256: the letters A to Z and the
  upper-case letters of Latin-1 (U+00C0 to U+00DE without the multiplication sign
  U+00D7) move up by 32, every other character stays.
\<close>

definition lower_char :: "char \<Rightarrow> char" where
  "lower_char c =
     (let n = (of_char c :: nat) in
      if (65 \<le> n \<and> n \<le> 90) \<or> (192 \<le> n \<and> n \<le> 222 \<and> n \<noteq> 215)
      then char_of (n + 32) else c)"

definition lower :: "string \<Rightarrow> string" where
  "lower s = map lower_char s"

text \<open>\<^verbatim>\<open>x.lower()\<close> on a profile value: only strings have the method.\<close>

fun py_lower :: "pyval \<Rightarrow> py_error + string" where
  "py_lower (PStr s) = Inr (lower s)"
| "py_lower v = Inl AttributeError"

text \<open>\<^verbatim>\<open>s.startswith(k)\<close> and the substring test \<^verbatim>\<open>k in s\<close>.\<close>

fun startswith :: "string \<Rightarrow> string \<Rightarrow> bool" where
  "startswith [] s = True"
| "startswith (k # ks) [] = False"
| "startswith (k # ks) (c # cs) = (k = c \<and> startswith ks cs)"

fun str_in :: "string \<Rightarrow> string \<Rightarrow> bool" where
  "str_in k [] = (k = [])"
| "str_in k (c # cs) = (startswith k (c # cs) \<or> str_in k cs)"

text \<open>\<^verbatim>\<open>str(n)\<close> for an integer: decimal digits, a minus sign when negative.\<close>

definition digit_char :: "nat \<Rightarrow> char" where
  "digit_char d = char_of (48 + d)"

function str_nat :: "nat \<Rightarrow> string" where
  "str_nat n = (if n < 10 then [digit_char n] else str_nat (n div 10) @ [digit_char (n mod 10)])"
  by pat_completeness auto
termination
  by (relation "measure (\<lambda>n. n)") auto

declare str_nat.simps [simp del]

definition str_int :: "int \<Rightarrow> string" where
  "str_int i = (if i < 0 then CHR ''-'' # str_nat (nat (- i)) else str_nat (nat i))"

text \<open>\<^verbatim>\<open>str(x)\<close> on a profile value.\<close>

fun py_str :: "pyval \<Rightarrow> string" where
  "py_str PNone = ''None''"
| "py_str (PBool b) = (if b then ''True'' else ''False'')"
| "py_str (PInt i) = str_int i"
| "py_str (PStr s) = s"

text \<open>
  The loop \<^verbatim>\<open>for i, opt in enumerate(options): if P(opt): select_by_index(i); return True\<close>:
  the index of the first element that passes the test, \<open>None\<close> when the loop runs out.
\<close>

fun first_index :: "('a \<Rightarrow> bool) \<Rightarrow> 'a list \<Rightarrow> nat option" where
  "first_index P [] = None"
| "first_index P (x # xs) = (if P x then Some 0 else map_option Suc (first_index P xs))"

text \<open>
  The loop \<^verbatim>\<open>for keyword in keywords: if keyword in question_lower: return ...\<close>:
  the first keyword of the list that occurs in the question.
\<close>

fun first_keyword :: "string list \<Rightarrow> string \<Rightarrow> string option" where
  "first_keyword [] q = None"
| "first_keyword (k # ks) q = (if str_in k q then Some k else first_keyword ks q)"

section \<open>Yes/no questions\<close>

text \<open>\<^verbatim>\<open>EnhancedAutoApply.handle_yes_no_question\<close>, auto_apply_enhanced.py lines 178 to 210.\<close>

definition yes_keywords :: "string list" where
  "yes_keywords =
     [''authorized to work'', ''eligible to work'', ''legally authorized'', ''able to work'',
      ''willing to relocate'', ''available to start'', ''comfortable with'']"

definition no_keywords :: "string list" where
  "no_keywords = [''require sponsorship'', ''need visa'', ''criminal record'', ''been terminated'']"

definition handle_yes_no_question :: "string \<Rightarrow> bool" where
  "handle_yes_no_question question_text =
     (let question_lower = lower question_text in
      case first_keyword yes_keywords question_lower of
        Some k \<Rightarrow> True
      | None \<Rightarrow>
          (case first_keyword no_keywords question_lower of
             Some k \<Rightarrow> False
           | None \<Rightarrow> True))"

section \<open>Phone number and years of experience\<close>

text \<open>
  \<^verbatim>\<open>str.isdigit\<close> on code points below 256: the ten decimal digits and the
  superscript digits U+00B2, U+00B3 and U+00B9.
\<close>

definition isdigit :: "char \<Rightarrow> bool" where
  "isdigit c =
     (let n = (of_char c :: nat) in (48 \<le> n \<and> n \<le> 57) \<or> n = 178 \<or> n = 179 \<or> n = 185)"

text \<open>
  \<^verbatim>\<open>EnhancedAutoApply.handle_phone_number\<close>, lines 35 to 40: the text passed to
  \<^verbatim>\<open>fill_text_field\<close>. \<^verbatim>\<open>filter\<close> iterates over the value, which raises
  \<^verbatim>\<open>TypeError\<close> unless it is a string.
\<close>

fun handle_phone_number :: "profile \<Rightarrow> py_error + string" where
  "handle_phone_number p =
     (case dict_get p ''phone'' (PStr '''') of
        PStr phone \<Rightarrow> Inr (filter isdigit phone)
      | _ \<Rightarrow> Inl TypeError)"

text \<open>
  \<^verbatim>\<open>EnhancedAutoApply.handle_years_experience\<close>, lines 42 to 62. The dictionary
  \<^verbatim>\<open>experience_map\<close> is iterated in insertion order, so it is an association list.
\<close>

definition experience_map :: "profile \<Rightarrow> (string \<times> pyval) list" where
  "experience_map p =
     [(''total'', dict_get p ''total_years_experience'' (PInt 3)),
      (''python'', dict_get p ''python_years'' (PInt 2)),
      (''finance'', dict_get p ''finance_years'' (PInt 3)),
      (''trading'', dict_get p ''trading_years'' (PInt 2)),
      (''operations'', dict_get p ''operations_years'' (PInt 2))]"

fun first_experience :: "(string \<times> pyval) list \<Rightarrow> string \<Rightarrow> pyval option" where
  "first_experience [] q = None"
| "first_experience ((key, years) # rest) q =
     (if str_in key q then Some years else first_experience rest q)"

definition handle_years_experience :: "profile \<Rightarrow> string \<Rightarrow> string" where
  "handle_years_experience p question_text =
     (let question_lower = lower question_text in
      case first_experience (experience_map p) question_lower of
        Some years \<Rightarrow> py_str years
      | None \<Rightarrow> py_str (dict_get p ''total_years_experience'' (PInt 3)))"

section \<open>Dropdowns\<close>

text \<open>
  \<^verbatim>\<open>EnhancedAutoApply.handle_dropdown\<close>, lines 64 to 146. The function is a
  sequence of seven \<^verbatim>\<open>if\<close> blocks, one per topic. A block returns from the function
  only inside its option loop, when an option passes its test; a block whose keywords
  match but whose loop runs out falls through to the next block. Each block is a
  definition here, with the result \<open>Inr (Some i)\<close> for \<^verbatim>\<open>select_by_index(i); return True\<close>,
  \<open>Inr None\<close> for falling through, and \<open>Inl e\<close> for an exception raised in the block.
  The argument \<open>options\<close> is the lower-cased option texts, \<open>question_lower\<close> the
  lower-cased label.
\<close>

type_synonym selection = "py_error + nat option"

definition opt_declines :: "string \<Rightarrow> bool" where
  "opt_declines opt = (str_in ''prefer not'' opt \<or> str_in ''decline'' opt)"

definition dd_education :: "profile \<Rightarrow> string list \<Rightarrow> string \<Rightarrow> selection" where
  "dd_education p options question_lower =
     (if str_in ''education'' question_lower \<or> str_in ''degree'' question_lower then
        (case py_lower (dict_get p ''education_level'' (PStr ''bachelor'')) of
           Inl e \<Rightarrow> Inl e
         | Inr target \<Rightarrow> Inr (first_index (\<lambda>opt. str_in target opt) options))
      else Inr None)"

definition dd_work_authorization :: "profile \<Rightarrow> string list \<Rightarrow> string \<Rightarrow> selection" where
  "dd_work_authorization p options question_lower =
     (if str_in ''authorized'' question_lower \<or> str_in ''sponsorship'' question_lower then
        (if truthy (dict_get p ''work_authorized'' (PBool True)) then
           Inr (first_index (\<lambda>opt. str_in ''yes'' opt \<or> str_in ''authorized'' opt) options)
         else Inr None)
      else Inr None)"

definition dd_visa_status :: "profile \<Rightarrow> string list \<Rightarrow> string \<Rightarrow> selection" where
  "dd_visa_status p options question_lower =
     (if str_in ''visa'' question_lower then
        (case py_lower (dict_get p ''visa_status'' (PStr ''citizen'')) of
           Inl e \<Rightarrow> Inl e
         | Inr visa_status \<Rightarrow>
             Inr (first_index (\<lambda>opt. str_in visa_status opt \<or> str_in ''citizen'' opt) options))
      else Inr None)"

text \<open>
  In the disclosure branch \<^verbatim>\<open>gender.lower()\<close> is evaluated in the loop's test, so it
  raises only when there is an option to test.
\<close>

definition disclose :: "pyval \<Rightarrow> string list \<Rightarrow> selection" where
  "disclose v options =
     (case options of
        [] \<Rightarrow> Inr None
      | opt # rest \<Rightarrow>
          (case py_lower v of
             Inl e \<Rightarrow> Inl e
           | Inr target \<Rightarrow> Inr (first_index (\<lambda>opt. str_in target opt) options)))"

definition dd_gender :: "profile \<Rightarrow> string list \<Rightarrow> string \<Rightarrow> selection" where
  "dd_gender p options question_lower =
     (if str_in ''gender'' question_lower then
        (if truthy (dict_get p ''gender_disclosure'' (PBool False)) then
           disclose (dict_get p ''gender'' (PStr '''')) options
         else Inr (first_index opt_declines options))
      else Inr None)"

definition dd_ethnicity :: "profile \<Rightarrow> string list \<Rightarrow> string \<Rightarrow> selection" where
  "dd_ethnicity p options question_lower =
     (if str_in ''race'' question_lower \<or> str_in ''ethnicity'' question_lower then
        (if truthy (dict_get p ''ethnicity_disclosure'' (PBool False)) then
           disclose (dict_get p ''ethnicity'' (PStr '''')) options
         else Inr (first_index opt_declines options))
      else Inr None)"

definition dd_veteran :: "profile \<Rightarrow> string list \<Rightarrow> string \<Rightarrow> selection" where
  "dd_veteran p options question_lower =
     (if str_in ''veteran'' question_lower then
        (let is_veteran = truthy (dict_get p ''veteran'' (PBool False)) in
         Inr (first_index
                (\<lambda>opt. if is_veteran \<and> str_in ''yes'' opt then True
                       else if \<not> is_veteran \<and> (str_in ''no'' opt \<or> str_in ''not'' opt) then True
                       else False)
                options))
      else Inr None)"

definition dd_disability :: "profile \<Rightarrow> string list \<Rightarrow> string \<Rightarrow> selection" where
  "dd_disability p options question_lower =
     (if str_in ''disability'' question_lower \<or> str_in ''disabled'' question_lower then
        Inr (first_index opt_declines options)
      else Inr None)"

text \<open>The seven blocks in the order in which the function runs them.\<close>

definition dropdown_blocks :: "profile \<Rightarrow> string list \<Rightarrow> string \<Rightarrow> selection list" where
  "dropdown_blocks p options question_lower =
     [dd_education p options question_lower,
      dd_work_authorization p options question_lower,
      dd_visa_status p options question_lower,
      dd_gender p options question_lower,
      dd_ethnicity p options question_lower,
      dd_veteran p options question_lower,
      dd_disability p options question_lower]"

text \<open>One block followed by the rest of the function.\<close>

definition then_try :: "selection \<Rightarrow> selection \<Rightarrow> selection" where
  "then_try block rest =
     (case block of
        Inl e \<Rightarrow> Inl e
      | Inr (Some i) \<Rightarrow> Inr (Some i)
      | Inr None \<Rightarrow> rest)"

definition handle_dropdown_body :: "profile \<Rightarrow> string list \<Rightarrow> string \<Rightarrow> selection" where
  "handle_dropdown_body p option_texts question_text =
     (let options = map lower option_texts;
          question_lower = lower question_text
      in then_try (dd_education p options question_lower)
        (then_try (dd_work_authorization p options question_lower)
        (then_try (dd_visa_status p options question_lower)
        (then_try (dd_gender p options question_lower)
        (then_try (dd_ethnicity p options question_lower)
        (then_try (dd_veteran p options question_lower)
        (then_try (dd_disability p options question_lower)
        (Inr None))))))))"

text \<open>
  The \<^verbatim>\<open>try ... except Exception\<close> around the body: an exception is logged and the
  function returns \<^verbatim>\<open>False\<close> without a selection. \<open>Some i\<close> is
  \<^verbatim>\<open>select_by_index(i)\<close> followed by \<^verbatim>\<open>return True\<close>, \<open>None\<close> is
  \<^verbatim>\<open>return False\<close>.
\<close>

definition handle_dropdown :: "profile \<Rightarrow> string list \<Rightarrow> string \<Rightarrow> nat option" where
  "handle_dropdown p option_texts question_text =
     (case handle_dropdown_body p option_texts question_text of
        Inl e \<Rightarrow> None
      | Inr r \<Rightarrow> r)"

section \<open>Radio groups\<close>

text \<open>
  \<^verbatim>\<open>EnhancedAutoApply.handle_radio_buttons\<close>, lines 148 to 176. \<open>Some i\<close> is a
  click on option \<open>i\<close> followed by \<^verbatim>\<open>return True\<close>. As in the dropdown handler, a
  block whose loop finds no option falls through to the next block.
\<close>

definition yes_or_no :: "pyval \<Rightarrow> string" where
  "yes_or_no v = (if truthy v then ''yes'' else ''no'')"

definition rb_work_authorization :: "profile \<Rightarrow> string \<Rightarrow> string list \<Rightarrow> nat option" where
  "rb_work_authorization p question_lower options =
     (if str_in ''authorized'' question_lower \<or> str_in ''sponsorship'' question_lower then
        (let target = yes_or_no (dict_get p ''work_authorized'' (PBool True)) in
         first_index (\<lambda>option. str_in target (lower option)) options)
      else None)"

definition rb_relocation :: "profile \<Rightarrow> string \<Rightarrow> string list \<Rightarrow> nat option" where
  "rb_relocation p question_lower options =
     (if str_in ''relocate'' question_lower \<or> str_in ''relocation'' question_lower then
        (let target = yes_or_no (dict_get p ''willing_to_relocate'' (PBool True)) in
         first_index (\<lambda>option. str_in target (lower option)) options)
      else None)"

definition rb_remote :: "profile \<Rightarrow> string \<Rightarrow> string list \<Rightarrow> nat option" where
  "rb_remote p question_lower options =
     (if str_in ''remote'' question_lower then
        (let target = yes_or_no (dict_get p ''open_to_remote'' (PBool True)) in
         first_index (\<lambda>option. str_in target (lower option)) options)
      else None)"

text \<open>The three blocks in the order in which the function runs them.\<close>

definition radio_blocks :: "profile \<Rightarrow> string \<Rightarrow> string list \<Rightarrow> nat option list" where
  "radio_blocks p question_lower options =
     [rb_work_authorization p question_lower options,
      rb_relocation p question_lower options,
      rb_remote p question_lower options]"

text \<open>One block followed by the rest of the function.\<close>

definition or_next :: "nat option \<Rightarrow> nat option \<Rightarrow> nat option" where
  "or_next block rest = (case block of Some i \<Rightarrow> Some i | None \<Rightarrow> rest)"

definition handle_radio_buttons :: "profile \<Rightarrow> string \<Rightarrow> string list \<Rightarrow> nat option" where
  "handle_radio_buttons p question_text options =
     (let question_lower = lower question_text
      in or_next (rb_work_authorization p question_lower options)
        (or_next (rb_relocation p question_lower options)
        (or_next (rb_remote p question_lower options)
        None)))"

section \<open>The form controls of a page and the commands issued to the browser\<close>

text \<open>
  What \<^verbatim>\<open>fill_linkedin_easy_apply\<close> reads from a page. \<open>tf_value\<close> and
  \<open>dd_value\<close> are the \<^verbatim>\<open>value\<close> attributes (empty when absent); a label is
  \<open>None\<close> when the control has no id or no \<^verbatim>\<open>label[for=id]\<close> element exists; a
  legend is \<open>None\<close> when the fieldset has none; \<open>rg_checked\<close> is the radio
  option already chosen, if any. The file inputs are \<open>None\<close> when the page has
  none and otherwise hold their \<^verbatim>\<open>value\<close> attribute. \<open>buttons\<close> lists the
  \<^verbatim>\<open>aria-label\<close> attributes of the page's buttons, in document order.
\<close>

record text_field =
  tf_value :: string
  tf_label :: "string option"

record dropdown =
  dd_value :: string
  dd_label :: "string option"
  dd_options :: "string list"

record radio_group =
  rg_legend :: "string option"
  rg_options :: "string list"
  rg_checked :: "nat option"

record page =
  resume_input :: "string option"
  cover_input :: "string option"
  text_fields :: "text_field list"
  dropdowns :: "dropdown list"
  radio_groups :: "radio_group list"
  buttons :: "string list"

text \<open>
  A command names its control by its position in the page's list of text fields,
  dropdowns or radio groups. \<open>SetValue i v\<close> is \<^verbatim>\<open>fill_text_field(field, v)\<close>,
  \<open>SelectOption i j\<close> is \<^verbatim>\<open>select_by_index(j)\<close> on dropdown \<open>i\<close>, and
  \<open>ClickOption i j\<close> is the click on option \<open>j\<close> of radio group \<open>i\<close>.
\<close>

datatype command =
    ClickEasyApply
  | UploadResume pyval
  | UploadCoverLetter pyval
  | SetValue nat pyval
  | SelectOption nat nat
  | ClickOption nat nat
  | ClickNext
  | ClickReview
  | ClickSubmit
  | ClickDismiss

text \<open>The commands that move the application to another page or submit it.\<close>

fun is_navigation :: "command \<Rightarrow> bool" where
  "is_navigation ClickNext = True"
| "is_navigation ClickReview = True"
| "is_navigation ClickSubmit = True"
| "is_navigation c = False"

section \<open>Filling the controls of one page\<close>

text \<open>
  The body of the page loop of \<^verbatim>\<open>fill_linkedin_easy_apply\<close>, lines 266 to 350.
  The \<^verbatim>\<open>if\<close>/\<^verbatim>\<open>elif\<close> chain on the label of a text field (lines 299 to 313) is
  \<open>classify_text\<close>; its argument is the label text, already lower-cased.
\<close>

datatype text_intent =
  Phone | YearsExperience | LinkedinUrl | PortfolioUrl | GithubUrl | Unclassified

definition classify_text :: "string \<Rightarrow> text_intent" where
  "classify_text label_text =
     (if str_in ''phone'' label_text then Phone
      else if str_in ''year'' label_text \<and> str_in ''experience'' label_text then YearsExperience
      else if str_in ''linkedin'' label_text then LinkedinUrl
      else if str_in ''website'' label_text \<or> str_in ''portfolio'' label_text then PortfolioUrl
      else if str_in ''github'' label_text then GithubUrl
      else Unclassified)"

definition upload_resume :: "profile \<Rightarrow> command list" where
  "upload_resume p =
     (let resume_path = dict_get p ''resume_path'' (PStr '''') in
      if truthy resume_path then [UploadResume resume_path] else [])"

definition upload_cover_letter :: "profile \<Rightarrow> command list" where
  "upload_cover_letter p =
     (let cover_letter_path = dict_get p ''cover_letter_path'' (PStr '''') in
      if truthy cover_letter_path then [UploadCoverLetter cover_letter_path] else [])"

definition fill_uploads :: "profile \<Rightarrow> page \<Rightarrow> command list" where
  "fill_uploads p pg =
     (case resume_input pg of
        None \<Rightarrow> []
      | Some v \<Rightarrow> if v = [] then upload_resume p else []) @
     (case cover_input pg of
        None \<Rightarrow> []
      | Some v \<Rightarrow> if v = [] then upload_cover_letter p else [])"

text \<open>
  One text field. A field whose \<^verbatim>\<open>value\<close> attribute is not empty is skipped. An
  exception raised while handling the field is caught by the \<^verbatim>\<open>try\<close> around the
  loop body, and the loop goes on with the next field.
\<close>

definition fill_text :: "profile \<Rightarrow> nat \<Rightarrow> text_field \<Rightarrow> command list" where
  "fill_text p i field =
     (if tf_value field \<noteq> [] then []
      else
        (let label_text = (case tf_label field of None \<Rightarrow> [] | Some t \<Rightarrow> lower t) in
         case classify_text label_text of
           Phone \<Rightarrow>
             (case handle_phone_number p of
                Inl e \<Rightarrow> []
              | Inr phone_clean \<Rightarrow> [SetValue i (PStr phone_clean)])
         | YearsExperience \<Rightarrow> [SetValue i (PStr (handle_years_experience p label_text))]
         | LinkedinUrl \<Rightarrow> [SetValue i (dict_get p ''linkedin_url'' (PStr ''''))]
         | PortfolioUrl \<Rightarrow> [SetValue i (dict_get p ''portfolio_url'' (PStr ''''))]
         | GithubUrl \<Rightarrow> [SetValue i (dict_get p ''github_url'' (PStr ''''))]
         | Unclassified \<Rightarrow> []))"

text \<open>One dropdown: its current value is not read.\<close>

definition fill_dropdown :: "profile \<Rightarrow> nat \<Rightarrow> dropdown \<Rightarrow> command list" where
  "fill_dropdown p i dd =
     (let label_text = (case dd_label dd of None \<Rightarrow> [] | Some t \<Rightarrow> t) in
      case handle_dropdown p (dd_options dd) label_text of
        None \<Rightarrow> []
      | Some j \<Rightarrow> [SelectOption i j])"

text \<open>
  One radio group: a fieldset without a legend raises in \<^verbatim>\<open>find_element\<close> and is
  passed over; which option is checked is not read.
\<close>

definition fill_radio :: "profile \<Rightarrow> nat \<Rightarrow> radio_group \<Rightarrow> command list" where
  "fill_radio p i grp =
     (case rg_legend grp of
        None \<Rightarrow> []
      | Some question_text \<Rightarrow>
          (case handle_radio_buttons p question_text (rg_options grp) of
             None \<Rightarrow> []
           | Some j \<Rightarrow> [ClickOption i j]))"

definition fill_page :: "profile \<Rightarrow> page \<Rightarrow> command list" where
  "fill_page p pg =
     fill_uploads p pg @
     concat (map (\<lambda>(i, field). fill_text p i field) (enumerate 0 (text_fields pg))) @
     concat (map (\<lambda>(i, dd). fill_dropdown p i dd) (enumerate 0 (dropdowns pg))) @
     concat (map (\<lambda>(i, grp). fill_radio p i grp) (enumerate 0 (radio_groups pg)))"

section \<open>Page navigation\<close>

text \<open>
  The button probes of lines 352 to 387: \<^verbatim>\<open>button[aria-label*='Continue']\<close> and
  its like find a button whose \<^verbatim>\<open>aria-label\<close> contains the word, case-sensitively.
\<close>

definition has_next :: "page \<Rightarrow> bool" where
  "has_next pg = list_ex (\<lambda>a. str_in ''Continue'' a \<or> str_in ''Next'' a) (buttons pg)"

definition has_review :: "page \<Rightarrow> bool" where
  "has_review pg = list_ex (\<lambda>a. str_in ''Review'' a) (buttons pg)"

definition has_submit :: "page \<Rightarrow> bool" where
  "has_submit pg =
     list_ex (\<lambda>a. str_in ''Submit'' a \<or> str_in ''Submit application'' a) (buttons pg)"

text \<open>
  The pair returned by \<^verbatim>\<open>fill_linkedin_easy_apply\<close>, with the value of
  \<^verbatim>\<open>page_count\<close> at the return and the commands issued up to it.
\<close>

record outcome =
  success :: bool
  status :: string
  pages :: nat
  issued :: "command list"

text \<open>
  The \<^verbatim>\<open>while page_count < max_pages\<close> loop, lines 262 to 393. \<open>flow k\<close> is the
  page the browser shows after \<open>k\<close> clicks on a navigation button. A page with none of
  the three buttons leaves the loop by \<^verbatim>\<open>break\<close> and reaches the statements after
  the loop, the same as a loop that ran \<^verbatim>\<open>max_pages\<close> times. The commands are
  taken to succeed: a click or a lookup that fails with another exception than
  \<^verbatim>\<open>NoSuchElementException\<close> is not part of the model.
\<close>

function easy_apply_pages ::
  "profile \<Rightarrow> (nat \<Rightarrow> page) \<Rightarrow> nat \<Rightarrow> nat \<Rightarrow> command list \<Rightarrow> outcome" where
  "easy_apply_pages p flow max_pages page_count cmds =
     (if page_count < max_pages then
        (if has_next (flow page_count) then
           easy_apply_pages p flow max_pages (page_count + 1)
             (cmds @ fill_page p (flow page_count) @ [ClickNext])
         else if has_review (flow page_count) then
           easy_apply_pages p flow max_pages (page_count + 1)
             (cmds @ fill_page p (flow page_count) @ [ClickReview])
         else if has_submit (flow page_count) then
           (if truthy (dict_get p ''auto_submit'' (PBool False)) then
              \<lparr>success = True, status = ''Applied'', pages = page_count + 1,
               issued = cmds @ fill_page p (flow page_count) @ [ClickSubmit]\<rparr>
            else
              \<lparr>success = True, status = ''Ready to Submit - Confirmation Required'',
               pages = page_count + 1, issued = cmds @ fill_page p (flow page_count)\<rparr>)
         else
           \<lparr>success = False, status = ''Max Pages Reached'', pages = page_count + 1,
            issued = cmds @ fill_page p (flow page_count)\<rparr>)
      else
        \<lparr>success = False, status = ''Max Pages Reached'', pages = page_count, issued = cmds\<rparr>)"
  by pat_completeness auto
termination
  by (relation "measure (\<lambda>(p, flow, max_pages, page_count, cmds). max_pages - page_count)") auto

declare easy_apply_pages.simps [simp del]

text \<open>
  \<^verbatim>\<open>fill_linkedin_easy_apply\<close>, lines 242 to 397. \<open>entry_error\<close> is the message of
  the exception raised before the loop (the wait for the Easy Apply button timing
  out), \<open>None\<close> when the button was clicked.
\<close>

definition fill_linkedin_easy_apply :: "profile \<Rightarrow> string option \<Rightarrow> (nat \<Rightarrow> page) \<Rightarrow> outcome" where
  "fill_linkedin_easy_apply p entry_error flow =
     (case entry_error of
        Some msg \<Rightarrow> \<lparr>success = False, status = ''Error: '' @ msg, pages = 0, issued = []\<rparr>
      | None \<Rightarrow> easy_apply_pages p flow 10 0 [ClickEasyApply])"

section \<open>The basic auto-apply flow of the job monitor\<close>

text \<open>
  \<^verbatim>\<open>JobMonitor.apply_to_job\<close>, job_monitor.py lines 150 to 203. Its selectors
  compare the whole \<^verbatim>\<open>aria-label\<close>. The loop \<^verbatim>\<open>for page in range(max_pages)\<close>
  has no statement after it for the case that it runs out: the function goes on to
  the Dismiss button. The result of the loop is whether the job was applied to, the
  number of clicks made, and the commands issued.
\<close>

definition has_button :: "string \<Rightarrow> page \<Rightarrow> bool" where
  "has_button a pg = List.member (buttons pg) a"

fun apply_pages ::
  "profile \<Rightarrow> (nat \<Rightarrow> page) \<Rightarrow> nat \<Rightarrow> nat \<Rightarrow> command list \<Rightarrow> bool \<times> nat \<times> command list" where
  "apply_pages config flow 0 clicks cmds = (False, clicks, cmds)"
| "apply_pages config flow (Suc remaining) clicks cmds =
     (if has_button ''Continue to next step'' (flow clicks) then
        apply_pages config flow remaining (clicks + 1) (cmds @ [ClickNext])
      else if has_button ''Submit application'' (flow clicks) then
        (if truthy (dict_get config ''confirm_before_submit'' (PBool True)) then
           (False, clicks, cmds)
         else (True, clicks + 1, cmds @ [ClickSubmit]))
      else (False, clicks, cmds))"

text \<open>
  \<open>job_status\<close> is \<^verbatim>\<open>job_data['status']\<close> before the call; the result holds it
  after the call, whether the job was appended to \<^verbatim>\<open>jobs_applied\<close>, and the
  commands issued.
\<close>

definition apply_to_job ::
  "profile \<Rightarrow> string option \<Rightarrow> (nat \<Rightarrow> page) \<Rightarrow> string \<Rightarrow> string \<times> bool \<times> command list" where
  "apply_to_job config entry_error flow job_status =
     (case entry_error of
        Some msg \<Rightarrow> (''Manual Application Required'', False, [])
      | None \<Rightarrow>
          (case apply_pages config flow 5 0 [ClickEasyApply] of
             (applied, clicks, cmds) \<Rightarrow>
               (if applied then ''Applied'' else job_status,
                applied,
                cmds @ (if has_button ''Dismiss'' (flow clicks) then [ClickDismiss] else []))))"

section \<open>Pages for the examples\<close>

text \<open>A page without form controls that shows the buttons with the given labels.\<close>

definition buttons_only :: "string list \<Rightarrow> page" where
  "buttons_only labels =
     \<lparr>resume_input = None, cover_input = None, text_fields = [], dropdowns = [],
      radio_groups = [], buttons = labels\<rparr>"

section \<open>Facts about the string primitives\<close>

lemma startswith_iff: "startswith k s \<longleftrightarrow> (\<exists>t. s = k @ t)"
  by (induction k s rule: startswith.induct) auto

lemma str_in_iff: "str_in k s \<longleftrightarrow> (\<exists>p t. s = p @ k @ t)"
proof (induction s)
  case Nil
  show ?case by auto
next
  case (Cons c cs)
  show ?case
  proof
    assume "str_in k (c # cs)"
    then consider "startswith k (c # cs)" | "str_in k cs" by auto
    then show "\<exists>p t. c # cs = p @ k @ t"
    proof cases
      case 1
      then obtain t where "c # cs = k @ t" by (auto simp: startswith_iff)
      then have "c # cs = [] @ k @ t" by simp
      then show ?thesis by blast
    next
      case 2
      then obtain p t where "cs = p @ k @ t" using Cons.IH by blast
      then have "c # cs = (c # p) @ k @ t" by simp
      then show ?thesis by blast
    qed
  next
    assume "\<exists>p t. c # cs = p @ k @ t"
    then obtain p t where pt: "c # cs = p @ k @ t" by blast
    show "str_in k (c # cs)"
    proof (cases p)
      case Nil
      with pt have "startswith k (c # cs)" by (auto simp: startswith_iff)
      then show ?thesis by simp
    next
      case (Cons d p')
      with pt have "cs = p' @ k @ t" by simp
      then have "str_in k cs" using Cons.IH by blast
      then show ?thesis by simp
    qed
  qed
qed

lemma str_in_empty: "str_in [] s"
  by (cases s) simp_all

lemma first_keyword_None_iff: "first_keyword ks q = None \<longleftrightarrow> (\<forall>k \<in> set ks. \<not> str_in k q)"
  by (induction ks) auto

lemma first_keyword_Some_iff:
  "(\<exists>k. first_keyword ks q = Some k) \<longleftrightarrow> (\<exists>k \<in> set ks. str_in k q)"
  using first_keyword_None_iff [of ks q] by (cases "first_keyword ks q") auto

lemma first_index_None_iff: "first_index P xs = None \<longleftrightarrow> (\<forall>x \<in> set xs. \<not> P x)"
  by (induction xs) auto

lemma first_index_Some_iff:
  "first_index P xs = Some i \<longleftrightarrow> i < length xs \<and> P (xs ! i) \<and> (\<forall>j < i. \<not> P (xs ! j))"
proof (induction xs arbitrary: i)
  case Nil
  show ?case by simp
next
  case (Cons x xs)
  show ?case
  proof (cases "P x")
    case True
    then show ?thesis by (cases i) auto
  next
    case False
    show ?thesis
    proof (cases i)
      case 0
      with False show ?thesis by auto
    next
      case (Suc n)
      have "(\<forall>j < Suc n. \<not> P ((x # xs) ! j)) \<longleftrightarrow> (\<forall>j < n. \<not> P (xs ! j))"
        using False by (auto simp: less_Suc_eq_0_disj)
      with False Suc Cons.IH [of n] show ?thesis by auto
    qed
  qed
qed

section \<open>Facts about the handlers\<close>

lemma then_try_simps:
  "then_try (Inr None) r = r"
  "then_try (Inr (Some i)) r = Inr (Some i)"
  "then_try (Inl e) r = Inl e"
  by (simp_all add: then_try_def)

lemma first_index_map:
  "first_index P (map f xs) = first_index (\<lambda>x. P (f x)) xs"
  by (induction xs) auto

lemma handle_dropdown_body_foldr:
  "handle_dropdown_body p opts q =
     foldr then_try (dropdown_blocks p (map lower opts) (lower q)) (Inr None)"
  by (simp add: handle_dropdown_body_def dropdown_blocks_def Let_def)

lemma foldr_then_try_first:
  "k < length bs \<Longrightarrow> \<forall>j < k. bs ! j = Inr None \<Longrightarrow> bs ! k = Inr (Some i) \<Longrightarrow>
   foldr then_try bs z = Inr (Some i)"
proof (induction bs arbitrary: k)
  case Nil
  then show ?case by simp
next
  case (Cons b bs)
  show ?case
  proof (cases k)
    case 0
    with Cons.prems show ?thesis by (simp add: then_try_simps)
  next
    case (Suc n)
    with Cons.prems have b: "b = Inr None" by auto
    from Suc Cons.prems have "n < length bs" "\<forall>j < n. bs ! j = Inr None" "bs ! n = Inr (Some i)"
      by auto
    then have "foldr then_try bs z = Inr (Some i)" by (rule Cons.IH)
    with b show ?thesis by (simp add: then_try_simps)
  qed
qed

lemma or_next_simps:
  "or_next None b = b"
  "or_next (Some i) b = Some i"
  "or_next a None = a"
  by (simp_all add: or_next_def split: option.splits)

lemma handle_radio_buttons_foldr:
  "handle_radio_buttons p q opts = foldr or_next (radio_blocks p (lower q) opts) None"
  by (simp add: handle_radio_buttons_def radio_blocks_def or_next_simps Let_def split: option.splits)

lemma foldr_or_next_first:
  "k < length bs \<Longrightarrow> \<forall>j < k. bs ! j = None \<Longrightarrow> bs ! k = Some i \<Longrightarrow>
   foldr or_next bs z = Some i"
proof (induction bs arbitrary: k)
  case Nil
  then show ?case by simp
next
  case (Cons b bs)
  show ?case
  proof (cases k)
    case 0
    with Cons.prems show ?thesis by (simp add: or_next_simps)
  next
    case (Suc n)
    with Cons.prems have b: "b = None" by auto
    from Suc Cons.prems have "n < length bs" "\<forall>j < n. bs ! j = None" "bs ! n = Some i"
      by auto
    then have "foldr or_next bs z = Some i" by (rule Cons.IH)
    with b show ?thesis by (simp add: or_next_simps)
  qed
qed

lemma disclose_absent: "opts \<noteq> [] \<Longrightarrow> disclose (PStr []) (map lower opts) = Inr (Some 0)"
  by (cases opts) (simp_all add: disclose_def lower_def str_in_empty)

section \<open>Facts about the page loop\<close>

lemma fill_uploads_no_navigation: "\<forall>c \<in> set (fill_uploads p pg). \<not> is_navigation c"
  by (auto simp: fill_uploads_def upload_resume_def upload_cover_letter_def Let_def
      split: option.splits if_splits)

lemma fill_text_no_navigation: "\<forall>c \<in> set (fill_text p i f). \<not> is_navigation c"
  by (auto simp: fill_text_def Let_def split: text_intent.splits sum.splits if_splits)

lemma fill_dropdown_no_navigation: "\<forall>c \<in> set (fill_dropdown p i d). \<not> is_navigation c"
  by (auto simp: fill_dropdown_def Let_def split: option.splits)

lemma fill_radio_no_navigation: "\<forall>c \<in> set (fill_radio p i g). \<not> is_navigation c"
  by (auto simp: fill_radio_def split: option.splits)

lemma fill_page_no_navigation: "filter is_navigation (fill_page p pg) = []"
proof -
  have "\<forall>c \<in> set (fill_page p pg). \<not> is_navigation c"
    using fill_uploads_no_navigation [of p pg] fill_text_no_navigation [of p]
      fill_dropdown_no_navigation [of p] fill_radio_no_navigation [of p]
    by (fastforce simp: fill_page_def)
  then show ?thesis by (simp add: filter_empty_conv)
qed

lemma easy_apply_pages_all_next:
  "page_count \<le> max_pages \<Longrightarrow> \<forall>k. page_count \<le> k \<and> k < max_pages \<longrightarrow> has_next (flow k) \<Longrightarrow>
   success (easy_apply_pages p flow max_pages page_count cmds) = False \<and>
   status (easy_apply_pages p flow max_pages page_count cmds) = ''Max Pages Reached'' \<and>
   pages (easy_apply_pages p flow max_pages page_count cmds) = max_pages \<and>
   filter is_navigation (issued (easy_apply_pages p flow max_pages page_count cmds)) =
     filter is_navigation cmds @ replicate (max_pages - page_count) ClickNext"
proof (induction p flow max_pages page_count cmds rule: easy_apply_pages.induct)
  case (1 p flow max_pages page_count cmds)
  show ?case
  proof (cases "page_count < max_pages")
    case False
    then have "easy_apply_pages p flow max_pages page_count cmds =
      \<lparr>success = False, status = ''Max Pages Reached'', pages = page_count, issued = cmds\<rparr>"
      by (subst easy_apply_pages.simps) simp
    moreover from False "1.prems" have "page_count = max_pages" by simp
    ultimately show ?thesis by simp
  next
    case True
    with "1.prems" have n: "has_next (flow page_count)" by simp
    have step: "easy_apply_pages p flow max_pages page_count cmds =
      easy_apply_pages p flow max_pages (page_count + 1)
        (cmds @ fill_page p (flow page_count) @ [ClickNext])"
      using True n by (subst easy_apply_pages.simps) simp
    have "page_count + 1 \<le> max_pages" using True by simp
    moreover have "\<forall>k. page_count + 1 \<le> k \<and> k < max_pages \<longrightarrow> has_next (flow k)"
      using "1.prems" by simp
    ultimately have IH:
      "success (easy_apply_pages p flow max_pages (page_count + 1)
          (cmds @ fill_page p (flow page_count) @ [ClickNext])) = False \<and>
       status (easy_apply_pages p flow max_pages (page_count + 1)
          (cmds @ fill_page p (flow page_count) @ [ClickNext])) = ''Max Pages Reached'' \<and>
       pages (easy_apply_pages p flow max_pages (page_count + 1)
          (cmds @ fill_page p (flow page_count) @ [ClickNext])) = max_pages \<and>
       filter is_navigation (issued (easy_apply_pages p flow max_pages (page_count + 1)
          (cmds @ fill_page p (flow page_count) @ [ClickNext]))) =
       filter is_navigation (cmds @ fill_page p (flow page_count) @ [ClickNext]) @
         replicate (max_pages - (page_count + 1)) ClickNext"
      using "1.IH"(1) [OF True n] by blast
    have "replicate (max_pages - page_count) ClickNext =
          ClickNext # replicate (max_pages - (page_count + 1)) ClickNext"
      using True by (cases "max_pages - page_count") auto
    with IH show ?thesis
      unfolding step by (simp add: fill_page_no_navigation)
  qed
qed

lemma apply_pages_all_next:
  "\<forall>k. clicks \<le> k \<and> k < clicks + remaining \<longrightarrow> has_button ''Continue to next step'' (flow k) \<Longrightarrow>
   apply_pages config flow remaining clicks cmds =
     (False, clicks + remaining, cmds @ replicate remaining ClickNext)"
proof (induction remaining arbitrary: clicks cmds)
  case 0
  show ?case by simp
next
  case (Suc remaining)
  from Suc.prems have n: "has_button ''Continue to next step'' (flow clicks)" by simp
  from Suc.prems have
    "\<forall>k. clicks + 1 \<le> k \<and> k < (clicks + 1) + remaining \<longrightarrow>
         has_button ''Continue to next step'' (flow k)"
    by simp
  then have "apply_pages config flow remaining (clicks + 1) (cmds @ [ClickNext]) =
     (False, (clicks + 1) + remaining, (cmds @ [ClickNext]) @ replicate remaining ClickNext)"
    by (rule Suc.IH)
  with n show ?case by (simp add: replicate_app_Cons_same)
qed

section \<open>Claims\<close>

subsection \<open>Answer policies\<close>

text \<open>
  C1 (as amended). For every options list and every profile, a dropdown whose label is
  a disability-status label (it contains "disability" or "disabled" and none of the
  keywords of the earlier topics) gets the first option whose lower-cased text contains
  "prefer not" or "decline", regardless of the profile, and no option when no option
  contains either phrase. In particular, with the options "Yes", "No",
  "I prefer not to answer" the handler selects index 2, and with the options "Yes",
  "No", "I don't wish to answer" it selects nothing.
\<close>

theorem handle_dropdown_disability:
  assumes dis: "str_in ''disability'' (lower q) \<or> str_in ''disabled'' (lower q)"
    and earlier: "\<forall>k \<in> set [''education'', ''degree'', ''authorized'', ''sponsorship'', ''visa'',
                          ''gender'', ''race'', ''ethnicity'', ''veteran'']. \<not> str_in k (lower q)"
  shows "(handle_dropdown p opts q = Some i \<longleftrightarrow>
            i < length opts \<and> opt_declines (lower (opts ! i)) \<and>
            (\<forall>j < i. \<not> opt_declines (lower (opts ! j)))) \<and>
         (handle_dropdown p opts q = None \<longleftrightarrow> (\<forall>opt \<in> set opts. \<not> opt_declines (lower opt)))"
proof -
  from earlier have
    "dd_education p (map lower opts) (lower q) = Inr None"
    "dd_work_authorization p (map lower opts) (lower q) = Inr None"
    "dd_visa_status p (map lower opts) (lower q) = Inr None"
    "dd_gender p (map lower opts) (lower q) = Inr None"
    "dd_ethnicity p (map lower opts) (lower q) = Inr None"
    "dd_veteran p (map lower opts) (lower q) = Inr None"
    by (simp_all add: dd_education_def dd_work_authorization_def dd_visa_status_def
        dd_gender_def dd_ethnicity_def dd_veteran_def)
  moreover from dis have
    "dd_disability p (map lower opts) (lower q) = Inr (first_index opt_declines (map lower opts))"
    by (simp add: dd_disability_def)
  ultimately have eq: "handle_dropdown p opts q = first_index (\<lambda>opt. opt_declines (lower opt)) opts"
    by (cases "first_index opt_declines (map lower opts)")
       (simp_all add: handle_dropdown_def handle_dropdown_body_def then_try_simps first_index_map)
  show ?thesis
    unfolding eq by (simp add: first_index_Some_iff first_index_None_iff)
qed

theorem handle_dropdown_disability_witness:
  "handle_dropdown Map.empty [''Yes'', ''No'', ''I prefer not to answer''] ''Disability status'' = Some 2 \<and>
   handle_dropdown Map.empty [''Yes'', ''No'', ''I don't wish to answer''] ''Disability status'' = None"
proof -
  have dis: "str_in ''disability'' (lower ''Disability status'') \<or>
             str_in ''disabled'' (lower ''Disability status'')"
    by code_simp
  have earlier: "\<forall>k \<in> set [''education'', ''degree'', ''authorized'', ''sponsorship'', ''visa'',
                          ''gender'', ''race'', ''ethnicity'', ''veteran''].
                   \<not> str_in k (lower ''Disability status'')"
    by code_simp
  have o0: "\<not> opt_declines (lower ([''Yes'', ''No'', ''I prefer not to answer''] ! 0))"
    by code_simp
  have o1: "\<not> opt_declines (lower ([''Yes'', ''No'', ''I prefer not to answer''] ! Suc 0))"
    by code_simp
  have o2: "opt_declines (lower ([''Yes'', ''No'', ''I prefer not to answer''] ! 2))"
    by code_simp
  have before: "\<forall>j < 2. \<not> opt_declines (lower ([''Yes'', ''No'', ''I prefer not to answer''] ! j))"
    using o0 o1 by (auto simp: less_2_cases_iff simp del: nth_Cons_0 nth_Cons_Suc)
  have len: "2 < length [''Yes'', ''No'', ''I prefer not to answer'']"
    by simp
  have none: "\<forall>opt \<in> set [''Yes'', ''No'', ''I don't wish to answer'']. \<not> opt_declines (lower opt)"
    by code_simp
  show ?thesis
    using handle_dropdown_disability
        [OF dis earlier, of Map.empty "[''Yes'', ''No'', ''I prefer not to answer'']" 2]
      handle_dropdown_disability
        [OF dis earlier, of Map.empty "[''Yes'', ''No'', ''I don't wish to answer'']" 2]
      len o2 before none
    by blast
qed

theorem handle_dropdown_disability_counterexample:
  "handle_dropdown Map.empty [''Yes'', ''No'', ''I don't wish to answer''] ''Disability status'' \<noteq> Some 2"
  by code_simp

text \<open>
  C2 (as amended). The yes/no resolver lower-cases the label, answers true when one of
  the default-yes phrases occurs in it, otherwise false when one of the default-no
  phrases occurs in it, and true for every other label. Each phrase is matched as one
  contiguous substring: "Are you legally authorized to work in this country?" and
  "Do you enjoy puzzles?" give true, "Do you require sponsorship?" gives false, and
  "Do you require visa sponsorship?" gives true, because neither "require sponsorship"
  nor "need visa" occurs in it.
\<close>

theorem handle_yes_no_question_scan:
  "((\<exists>k \<in> set yes_keywords. str_in k (lower q)) \<longrightarrow> handle_yes_no_question q = True) \<and>
   ((\<forall>k \<in> set yes_keywords. \<not> str_in k (lower q)) \<and> (\<exists>k \<in> set no_keywords. str_in k (lower q))
      \<longrightarrow> handle_yes_no_question q = False) \<and>
   ((\<forall>k \<in> set yes_keywords. \<not> str_in k (lower q)) \<and> (\<forall>k \<in> set no_keywords. \<not> str_in k (lower q))
      \<longrightarrow> handle_yes_no_question q = True)"
proof (intro conjI impI)
  assume "\<exists>k \<in> set yes_keywords. str_in k (lower q)"
  then obtain k where "first_keyword yes_keywords (lower q) = Some k"
    using first_keyword_Some_iff by blast
  then show "handle_yes_no_question q = True"
    by (simp add: handle_yes_no_question_def)
next
  assume a: "(\<forall>k \<in> set yes_keywords. \<not> str_in k (lower q)) \<and>
             (\<exists>k \<in> set no_keywords. str_in k (lower q))"
  then have y: "first_keyword yes_keywords (lower q) = None"
    by (simp add: first_keyword_None_iff)
  from a obtain k where "first_keyword no_keywords (lower q) = Some k"
    using first_keyword_Some_iff by blast
  with y show "handle_yes_no_question q = False"
    by (simp add: handle_yes_no_question_def)
next
  assume a: "(\<forall>k \<in> set yes_keywords. \<not> str_in k (lower q)) \<and>
             (\<forall>k \<in> set no_keywords. \<not> str_in k (lower q))"
  then have "first_keyword yes_keywords (lower q) = None"
    and "first_keyword no_keywords (lower q) = None"
    by (simp_all add: first_keyword_None_iff)
  then show "handle_yes_no_question q = True"
    by (simp add: handle_yes_no_question_def)
qed

theorem handle_yes_no_question_scan_witness:
  "handle_yes_no_question ''Are you legally authorized to work in this country?'' = True \<and>
   handle_yes_no_question ''Do you require sponsorship?'' = False \<and>
   handle_yes_no_question ''Do you require visa sponsorship?'' = True \<and>
   handle_yes_no_question ''Do you enjoy puzzles?'' = True"
proof -
  have y1: "\<exists>k \<in> set yes_keywords.
              str_in k (lower ''Are you legally authorized to work in this country?'')"
    by code_simp
  have n2: "(\<forall>k \<in> set yes_keywords. \<not> str_in k (lower ''Do you require sponsorship?'')) \<and>
            (\<exists>k \<in> set no_keywords. str_in k (lower ''Do you require sponsorship?''))"
    by code_simp
  have d3: "(\<forall>k \<in> set yes_keywords. \<not> str_in k (lower ''Do you require visa sponsorship?'')) \<and>
            (\<forall>k \<in> set no_keywords. \<not> str_in k (lower ''Do you require visa sponsorship?''))"
    by code_simp
  have d4: "(\<forall>k \<in> set yes_keywords. \<not> str_in k (lower ''Do you enjoy puzzles?'')) \<and>
            (\<forall>k \<in> set no_keywords. \<not> str_in k (lower ''Do you enjoy puzzles?''))"
    by code_simp
  show ?thesis
    using handle_yes_no_question_scan [of "''Are you legally authorized to work in this country?''"]
      handle_yes_no_question_scan [of "''Do you require sponsorship?''"]
      handle_yes_no_question_scan [of "''Do you require visa sponsorship?''"]
      handle_yes_no_question_scan [of "''Do you enjoy puzzles?''"]
      y1 n2 d3 d4
    by blast
qed

theorem handle_yes_no_question_visa_sponsorship_counterexample:
  "handle_yes_no_question ''Do you require visa sponsorship?'' \<noteq> False"
  by code_simp




text \<open>
  C4 (as amended). For every dropdown and every radio group the blocks are tried in
  the order of the rule list (dropdowns: education, work authorization, visa status,
  gender, ethnicity, veteran status, disability status; radio groups: work
  authorization, relocation, remote preference), and the first block that selects an
  option decides: when every earlier block falls through and block \<open>k\<close> selects
  option \<open>i\<close>, the handler selects \<open>i\<close>, whatever the later blocks would do. A
  block whose keywords match but whose policy finds no option falls through, so a later
  block can still select an option for that control.
\<close>

theorem first_selecting_block_decides:
  "(k < length (dropdown_blocks p (map lower opts) (lower q)) \<and>
    (\<forall>j < k. dropdown_blocks p (map lower opts) (lower q) ! j = Inr None) \<and>
    dropdown_blocks p (map lower opts) (lower q) ! k = Inr (Some i)
      \<longrightarrow> handle_dropdown p opts q = Some i) \<and>
   (k < length (radio_blocks p (lower q) opts) \<and>
    (\<forall>j < k. radio_blocks p (lower q) opts ! j = None) \<and>
    radio_blocks p (lower q) opts ! k = Some i
      \<longrightarrow> handle_radio_buttons p q opts = Some i)"
proof (intro conjI impI)
  assume "k < length (dropdown_blocks p (map lower opts) (lower q)) \<and>
    (\<forall>j < k. dropdown_blocks p (map lower opts) (lower q) ! j = Inr None) \<and>
    dropdown_blocks p (map lower opts) (lower q) ! k = Inr (Some i)"
  then have "foldr then_try (dropdown_blocks p (map lower opts) (lower q)) (Inr None) = Inr (Some i)"
    using foldr_then_try_first by blast
  then show "handle_dropdown p opts q = Some i"
    by (simp add: handle_dropdown_def handle_dropdown_body_foldr)
next
  assume "k < length (radio_blocks p (lower q) opts) \<and>
    (\<forall>j < k. radio_blocks p (lower q) opts ! j = None) \<and>
    radio_blocks p (lower q) opts ! k = Some i"
  then have "foldr or_next (radio_blocks p (lower q) opts) None = Some i"
    using foldr_or_next_first by blast
  then show "handle_radio_buttons p q opts = Some i"
    by (simp add: handle_radio_buttons_foldr)
qed

theorem first_selecting_block_decides_witness:
  "handle_dropdown Map.empty [''Prefer not to say''] ''Education and gender'' = Some 0 \<and>
   handle_radio_buttons [''open_to_remote'' \<mapsto> PBool False]
     ''Are you authorized to work remote?'' [''No''] = Some 0"
proof -
  have d0: "dropdown_blocks Map.empty (map lower [''Prefer not to say''])
              (lower ''Education and gender'') ! 0 = Inr None"
    by code_simp
  have d1: "dropdown_blocks Map.empty (map lower [''Prefer not to say''])
              (lower ''Education and gender'') ! Suc 0 = Inr None"
    by code_simp
  have d2: "dropdown_blocks Map.empty (map lower [''Prefer not to say''])
              (lower ''Education and gender'') ! Suc (Suc 0) = Inr None"
    by code_simp
  have d3: "dropdown_blocks Map.empty (map lower [''Prefer not to say''])
              (lower ''Education and gender'') ! 3 = Inr (Some 0)"
    by code_simp
  have dl: "3 < length (dropdown_blocks Map.empty (map lower [''Prefer not to say''])
              (lower ''Education and gender''))"
    by (simp add: dropdown_blocks_def)
  have cases3: "j = 0 \<or> j = Suc 0 \<or> j = Suc (Suc 0)" if "j < 3" for j :: nat
    using that by arith
  have db: "\<forall>j < 3. dropdown_blocks Map.empty (map lower [''Prefer not to say''])
              (lower ''Education and gender'') ! j = Inr None"
    using d0 d1 d2 cases3 by metis
  have r0: "radio_blocks [''open_to_remote'' \<mapsto> PBool False]
              (lower ''Are you authorized to work remote?'') [''No''] ! 0 = None"
    by code_simp
  have r1: "radio_blocks [''open_to_remote'' \<mapsto> PBool False]
              (lower ''Are you authorized to work remote?'') [''No''] ! Suc 0 = None"
    by code_simp
  have r2: "radio_blocks [''open_to_remote'' \<mapsto> PBool False]
              (lower ''Are you authorized to work remote?'') [''No''] ! 2 = Some 0"
    by code_simp
  have rl: "2 < length (radio_blocks [''open_to_remote'' \<mapsto> PBool False]
              (lower ''Are you authorized to work remote?'') [''No''])"
    by (simp add: radio_blocks_def)
  have cases2: "j = 0 \<or> j = Suc 0" if "j < 2" for j :: nat
    using that by arith
  have rb: "\<forall>j < 2. radio_blocks [''open_to_remote'' \<mapsto> PBool False]
              (lower ''Are you authorized to work remote?'') [''No''] ! j = None"
    using r0 r1 cases2 by metis
  show ?thesis
    using first_selecting_block_decides
        [of 3 Map.empty "[''Prefer not to say'']" "''Education and gender''" 0]
      first_selecting_block_decides
        [of 2 "[''open_to_remote'' \<mapsto> PBool False]" "[''No'']"
            "''Are you authorized to work remote?''" 0]
      dl db d3 rl rb r2
    by blast
qed

theorem later_block_selects_counterexample:
  "str_in ''education'' (lower ''Education and gender'') \<and>
   dd_gender Map.empty (map lower [''Prefer not to say'']) (lower ''Education and gender'') =
     Inr (Some 0) \<and>
   handle_dropdown Map.empty [''Prefer not to say''] ''Education and gender'' = Some 0"
  by code_simp

subsection \<open>The page loop\<close>

text \<open>
  C5. A page on which none of the three buttons (continue/next, review, submit) is
  found ends the loop. The claim expects a successful completion there; the function
  returns the failure pair \<^verbatim>\<open>(False, "Max Pages Reached")\<close>, after one page,
  because the \<^verbatim>\<open>break\<close> leads to the statements that follow the loop.
\<close>

theorem no_button_page_reports_max_pages:
  "fill_linkedin_easy_apply Map.empty None (\<lambda>k. buttons_only []) =
     \<lparr>success = False, status = ''Max Pages Reached'', pages = 1, issued = [ClickEasyApply]\<rparr>"
  by code_simp

text \<open>
  C6. A text field that already holds a value is skipped, but a dropdown and a radio
  group are handled whatever they hold: on a page whose phone field, education
  dropdown and relocation radio group are all filled in, the phone field is left
  alone, the dropdown is selected again and the radio group is clicked again (here
  against the choice "No" that is already checked).
\<close>

theorem filled_controls_handled_again:
  "fill_page Map.empty
     \<lparr>resume_input = None, cover_input = None,
      text_fields = [\<lparr>tf_value = ''2125550100'', tf_label = Some ''Phone number''\<rparr>],
      dropdowns = [\<lparr>dd_value = ''Bachelor's degree'',
                    dd_label = Some ''Highest level of education'',
                    dd_options = [''Select an option'', ''Bachelor's degree'']\<rparr>],
      radio_groups = [\<lparr>rg_legend = Some ''Are you willing to relocate?'',
                       rg_options = [''Yes'', ''No''], rg_checked = Some 1\<rparr>],
      buttons = []\<rparr> =
   [SelectOption 0 1, ClickOption 0 0]"
  by code_simp

text \<open>
  C7. In a flow whose first two pages offer a continue button and whose third page
  offers only a submit button, with auto-submit off, the function returns
  \<^verbatim>\<open>(True, "Ready to Submit - Confirmation Required")\<close> on page 3, its navigation
  commands are exactly two clicks on the continue button, and it never clicks the
  submit button.
\<close>

theorem three_page_flow:
  assumes "\<not> truthy (dict_get p ''auto_submit'' (PBool False))"
    and "has_next (flow 0)" and "has_next (flow 1)"
    and "\<not> has_next (flow 2)" and "\<not> has_review (flow 2)" and "has_submit (flow 2)"
  shows "success (fill_linkedin_easy_apply p None flow) = True \<and>
         status (fill_linkedin_easy_apply p None flow) = ''Ready to Submit - Confirmation Required'' \<and>
         pages (fill_linkedin_easy_apply p None flow) = 3 \<and>
         filter is_navigation (issued (fill_linkedin_easy_apply p None flow)) = [ClickNext, ClickNext] \<and>
         ClickSubmit \<notin> set (issued (fill_linkedin_easy_apply p None flow))"
proof -
  have s3: "easy_apply_pages p flow 10 2 cmds =
    \<lparr>success = True, status = ''Ready to Submit - Confirmation Required'', pages = 3,
     issued = cmds @ fill_page p (flow 2)\<rparr>" for cmds
    using assms by (subst easy_apply_pages.simps) simp
  have s2: "easy_apply_pages p flow 10 1 cmds =
    easy_apply_pages p flow 10 2 (cmds @ fill_page p (flow 1) @ [ClickNext])" for cmds
    using assms by (subst easy_apply_pages.simps) (simp add: numeral_2_eq_2)
  have s1: "easy_apply_pages p flow 10 0 cmds =
    easy_apply_pages p flow 10 1 (cmds @ fill_page p (flow 0) @ [ClickNext])" for cmds
    using assms by (subst easy_apply_pages.simps) simp
  have e: "fill_linkedin_easy_apply p None flow =
    \<lparr>success = True, status = ''Ready to Submit - Confirmation Required'', pages = 3,
     issued = (([ClickEasyApply] @ fill_page p (flow 0) @ [ClickNext]) @
               fill_page p (flow 1) @ [ClickNext]) @ fill_page p (flow 2)\<rparr>"
    by (simp only: fill_linkedin_easy_apply_def option.case s1 s2 s3)
  have nav: "filter is_navigation (issued (fill_linkedin_easy_apply p None flow)) = [ClickNext, ClickNext]"
    unfolding e by (simp add: fill_page_no_navigation)
  have "ClickSubmit \<notin> set (filter is_navigation (issued (fill_linkedin_easy_apply p None flow)))"
    unfolding nav by simp
  then have "ClickSubmit \<notin> set (issued (fill_linkedin_easy_apply p None flow))"
    by simp
  with e nav show ?thesis by simp
qed

theorem three_page_flow_witness:
  "success (fill_linkedin_easy_apply Map.empty None
      (\<lambda>k. if k < 2 then buttons_only [''Continue''] else buttons_only [''Submit''])) = True \<and>
   status (fill_linkedin_easy_apply Map.empty None
      (\<lambda>k. if k < 2 then buttons_only [''Continue''] else buttons_only [''Submit''])) =
     ''Ready to Submit - Confirmation Required'' \<and>
   pages (fill_linkedin_easy_apply Map.empty None
      (\<lambda>k. if k < 2 then buttons_only [''Continue''] else buttons_only [''Submit''])) = 3 \<and>
   filter is_navigation (issued (fill_linkedin_easy_apply Map.empty None
      (\<lambda>k. if k < 2 then buttons_only [''Continue''] else buttons_only [''Submit'']))) =
     [ClickNext, ClickNext] \<and>
   ClickSubmit \<notin> set (issued (fill_linkedin_easy_apply Map.empty None
      (\<lambda>k. if k < 2 then buttons_only [''Continue''] else buttons_only [''Submit''])))"
proof -
  have a: "\<not> truthy (dict_get Map.empty ''auto_submit'' (PBool False))"
    by code_simp
  have c: "has_next (buttons_only [''Continue''])"
    by code_simp
  have s: "\<not> has_next (buttons_only [''Submit'']) \<and> \<not> has_review (buttons_only [''Submit'']) \<and>
           has_submit (buttons_only [''Submit''])"
    by code_simp
  show ?thesis
    by (rule three_page_flow) (simp_all add: a c s)
qed

text \<open>
  C8 (as amended). In the primary flow, when each of the first 10 pages offers a
  continue button, the function returns \<^verbatim>\<open>(False, "Max Pages Reached")\<close> with the
  page count at the ceiling of 10, and its navigation commands are exactly 10 clicks
  on the continue button. In the basic auto-apply flow of the job monitor, when each
  of the first 5 pages offers the "Continue to next step" button, the loop stops after
  exactly 5 clicks on it; that flow has no outcome for the ceiling: the job's status
  is left as it was, nothing is appended to the applied jobs, and the only command
  after the loop is the click on the Dismiss button, when the page has one.
\<close>

theorem page_ceiling:
  "((\<forall>k < 10. has_next (flow k)) \<longrightarrow>
      success (fill_linkedin_easy_apply p None flow) = False \<and>
      status (fill_linkedin_easy_apply p None flow) = ''Max Pages Reached'' \<and>
      pages (fill_linkedin_easy_apply p None flow) = 10 \<and>
      filter is_navigation (issued (fill_linkedin_easy_apply p None flow)) = replicate 10 ClickNext) \<and>
   ((\<forall>k < 5. has_button ''Continue to next step'' (flow k)) \<longrightarrow>
      apply_to_job config None flow job_status =
        (job_status, False,
         ClickEasyApply # replicate 5 ClickNext @
           (if has_button ''Dismiss'' (flow 5) then [ClickDismiss] else [])))"
proof (rule conjI; rule impI)
  assume a: "\<forall>k < 10. has_next (flow k)"
  have "(0::nat) \<le> 10" by simp
  moreover from a have "\<forall>k. 0 \<le> k \<and> k < 10 \<longrightarrow> has_next (flow k)" by simp
  ultimately have
    "success (easy_apply_pages p flow 10 0 [ClickEasyApply]) = False \<and>
     status (easy_apply_pages p flow 10 0 [ClickEasyApply]) = ''Max Pages Reached'' \<and>
     pages (easy_apply_pages p flow 10 0 [ClickEasyApply]) = 10 \<and>
     filter is_navigation (issued (easy_apply_pages p flow 10 0 [ClickEasyApply])) =
       filter is_navigation [ClickEasyApply] @ replicate (10 - 0) ClickNext"
    by (rule easy_apply_pages_all_next)
  then show "success (fill_linkedin_easy_apply p None flow) = False \<and>
      status (fill_linkedin_easy_apply p None flow) = ''Max Pages Reached'' \<and>
      pages (fill_linkedin_easy_apply p None flow) = 10 \<and>
      filter is_navigation (issued (fill_linkedin_easy_apply p None flow)) = replicate 10 ClickNext"
    by (simp add: fill_linkedin_easy_apply_def)
next
  assume "\<forall>k < 5. has_button ''Continue to next step'' (flow k)"
  then have "\<forall>k. 0 \<le> k \<and> k < 0 + 5 \<longrightarrow> has_button ''Continue to next step'' (flow k)" by simp
  then have "apply_pages config flow 5 0 [ClickEasyApply] =
     (False, 0 + 5, [ClickEasyApply] @ replicate 5 ClickNext)"
    by (rule apply_pages_all_next)
  then show "apply_to_job config None flow job_status =
        (job_status, False,
         ClickEasyApply # replicate 5 ClickNext @
           (if has_button ''Dismiss'' (flow 5) then [ClickDismiss] else []))"
    by (simp add: apply_to_job_def)
qed

theorem page_ceiling_witness:
  "success (fill_linkedin_easy_apply Map.empty None
      (\<lambda>k. buttons_only [''Continue to next step''])) = False \<and>
   status (fill_linkedin_easy_apply Map.empty None
      (\<lambda>k. buttons_only [''Continue to next step''])) = ''Max Pages Reached'' \<and>
   pages (fill_linkedin_easy_apply Map.empty None
      (\<lambda>k. buttons_only [''Continue to next step''])) = 10 \<and>
   filter is_navigation (issued (fill_linkedin_easy_apply Map.empty None
      (\<lambda>k. buttons_only [''Continue to next step'']))) = replicate 10 ClickNext \<and>
   apply_to_job Map.empty None (\<lambda>k. buttons_only [''Continue to next step'']) ''Found'' =
     (''Found'', False, ClickEasyApply # replicate 5 ClickNext)"
proof -
  have n: "has_next (buttons_only [''Continue to next step''])"
    by code_simp
  have b: "has_button ''Continue to next step'' (buttons_only [''Continue to next step''])"
    by code_simp
  have d: "\<not> has_button ''Dismiss'' (buttons_only [''Continue to next step''])"
    by code_simp
  show ?thesis
    using page_ceiling
        [of "\<lambda>k. buttons_only [''Continue to next step'']" Map.empty Map.empty "''Found''"]
      n b d
    by simp
qed

theorem apply_to_job_ceiling_counterexample:
  "apply_to_job Map.empty None (\<lambda>k. buttons_only [''Continue to next step'']) ''Found'' =
     (''Found'', False, [ClickEasyApply, ClickNext, ClickNext, ClickNext, ClickNext, ClickNext]) \<and>
   fst (apply_to_job Map.empty None (\<lambda>k. buttons_only [''Continue to next step'']) ''Found'') \<noteq>
     ''Max Pages Reached''"
  by code_simp

subsection \<open>Classification of text fields\<close>

text \<open>
  C9 (as amended). A label that contains both "year" and "experience" (in any case and
  any order) and does not contain "phone" is classified as years-experience; a label
  that contains "phone" is classified as phone, whatever else it contains. A label that
  contains "experience" but not "year" is never classified as years-experience.
\<close>

theorem classify_text_years_experience:
  "(str_in ''year'' (lower l) \<and> str_in ''experience'' (lower l) \<and> \<not> str_in ''phone'' (lower l)
      \<longrightarrow> classify_text (lower l) = YearsExperience) \<and>
   (str_in ''phone'' (lower l) \<longrightarrow> classify_text (lower l) = Phone) \<and>
   (str_in ''experience'' (lower l) \<and> \<not> str_in ''year'' (lower l)
      \<longrightarrow> classify_text (lower l) \<noteq> YearsExperience)"
  by (simp add: classify_text_def)

theorem classify_text_years_experience_witness:
  "classify_text (lower ''EXPERIENCE with Python, in Years'') = YearsExperience \<and>
   classify_text (lower ''Years of experience with phone systems'') = Phone \<and>
   classify_text (lower ''Relevant experience'') \<noteq> YearsExperience"
proof -
  have a: "str_in ''year'' (lower ''EXPERIENCE with Python, in Years'') \<and>
           str_in ''experience'' (lower ''EXPERIENCE with Python, in Years'') \<and>
           \<not> str_in ''phone'' (lower ''EXPERIENCE with Python, in Years'')"
    by code_simp
  have b: "str_in ''phone'' (lower ''Years of experience with phone systems'')"
    by code_simp
  have c: "str_in ''experience'' (lower ''Relevant experience'') \<and>
           \<not> str_in ''year'' (lower ''Relevant experience'')"
    by code_simp
  show ?thesis
    using classify_text_years_experience [of "''EXPERIENCE with Python, in Years''"]
      classify_text_years_experience [of "''Years of experience with phone systems''"]
      classify_text_years_experience [of "''Relevant experience''"]
      a b c
    by blast
qed

theorem classify_text_phone_first_counterexample:
  "str_in ''year'' (lower ''Years of experience with phone systems'') \<and>
   str_in ''experience'' (lower ''Years of experience with phone systems'') \<and>
   classify_text (lower ''Years of experience with phone systems'') \<noteq> YearsExperience"
  by code_simp

subsection \<open>Disclosure with an absent value\<close>

text \<open>
  C10. When the gender disclosure flag is true and the profile has no gender value,
  the handler selects index 0 of every non-empty gender dropdown (a dropdown whose
  label contains "gender" and none of the keywords of the earlier topics), because the
  default value, the empty string, occurs in every option text. The same holds for the
  ethnicity flag and value on every non-empty ethnicity dropdown.
\<close>

theorem handle_dropdown_empty_disclosure:
  "(opts \<noteq> [] \<and> truthy (dict_get p ''gender_disclosure'' (PBool False)) \<and> p ''gender'' = None \<and>
    str_in ''gender'' (lower q) \<and>
    (\<forall>k \<in> set [''education'', ''degree'', ''authorized'', ''sponsorship'', ''visa'']. \<not> str_in k (lower q))
      \<longrightarrow> handle_dropdown p opts q = Some 0) \<and>
   (opts \<noteq> [] \<and> truthy (dict_get p ''ethnicity_disclosure'' (PBool False)) \<and> p ''ethnicity'' = None \<and>
    (str_in ''race'' (lower q) \<or> str_in ''ethnicity'' (lower q)) \<and>
    (\<forall>k \<in> set [''education'', ''degree'', ''authorized'', ''sponsorship'', ''visa'', ''gender''].
        \<not> str_in k (lower q))
      \<longrightarrow> handle_dropdown p opts q = Some 0)"
proof (intro conjI impI)
  assume a: "opts \<noteq> [] \<and> truthy (dict_get p ''gender_disclosure'' (PBool False)) \<and>
    p ''gender'' = None \<and> str_in ''gender'' (lower q) \<and>
    (\<forall>k \<in> set [''education'', ''degree'', ''authorized'', ''sponsorship'', ''visa'']. \<not> str_in k (lower q))"
  then have
    "dd_education p (map lower opts) (lower q) = Inr None"
    "dd_work_authorization p (map lower opts) (lower q) = Inr None"
    "dd_visa_status p (map lower opts) (lower q) = Inr None"
    by (simp_all add: dd_education_def dd_work_authorization_def dd_visa_status_def)
  moreover from a have "dict_get p ''gender'' (PStr []) = PStr []"
    by (simp add: dict_get_def)
  with a have "dd_gender p (map lower opts) (lower q) = Inr (Some 0)"
    by (simp add: dd_gender_def disclose_absent)
  ultimately show "handle_dropdown p opts q = Some 0"
    by (simp add: handle_dropdown_def handle_dropdown_body_def then_try_simps)
next
  assume a: "opts \<noteq> [] \<and> truthy (dict_get p ''ethnicity_disclosure'' (PBool False)) \<and>
    p ''ethnicity'' = None \<and> (str_in ''race'' (lower q) \<or> str_in ''ethnicity'' (lower q)) \<and>
    (\<forall>k \<in> set [''education'', ''degree'', ''authorized'', ''sponsorship'', ''visa'', ''gender''].
        \<not> str_in k (lower q))"
  then have
    "dd_education p (map lower opts) (lower q) = Inr None"
    "dd_work_authorization p (map lower opts) (lower q) = Inr None"
    "dd_visa_status p (map lower opts) (lower q) = Inr None"
    "dd_gender p (map lower opts) (lower q) = Inr None"
    by (simp_all add: dd_education_def dd_work_authorization_def dd_visa_status_def dd_gender_def)
  moreover from a have "dict_get p ''ethnicity'' (PStr []) = PStr []"
    by (simp add: dict_get_def)
  with a have "dd_ethnicity p (map lower opts) (lower q) = Inr (Some 0)"
    by (simp add: dd_ethnicity_def disclose_absent)
  ultimately show "handle_dropdown p opts q = Some 0"
    by (simp add: handle_dropdown_def handle_dropdown_body_def then_try_simps)
qed

theorem handle_dropdown_empty_disclosure_witness:
  "handle_dropdown [''gender_disclosure'' \<mapsto> PBool True]
     [''Male'', ''Female'', ''Prefer not to say''] ''Gender'' = Some 0 \<and>
   handle_dropdown [''ethnicity_disclosure'' \<mapsto> PBool True]
     [''Asian'', ''White'', ''Decline to answer''] ''Race / Ethnicity'' = Some 0"
proof -
  have g: "[''Male'', ''Female'', ''Prefer not to say''] \<noteq> [] \<and>
    truthy (dict_get [''gender_disclosure'' \<mapsto> PBool True] ''gender_disclosure'' (PBool False)) \<and>
    [''gender_disclosure'' \<mapsto> PBool True] ''gender'' = None \<and>
    str_in ''gender'' (lower ''Gender'') \<and>
    (\<forall>k \<in> set [''education'', ''degree'', ''authorized'', ''sponsorship'', ''visa''].
        \<not> str_in k (lower ''Gender''))"
    by code_simp
  have e: "[''Asian'', ''White'', ''Decline to answer''] \<noteq> [] \<and>
    truthy (dict_get [''ethnicity_disclosure'' \<mapsto> PBool True] ''ethnicity_disclosure'' (PBool False)) \<and>
    [''ethnicity_disclosure'' \<mapsto> PBool True] ''ethnicity'' = None \<and>
    (str_in ''race'' (lower ''Race / Ethnicity'') \<or> str_in ''ethnicity'' (lower ''Race / Ethnicity'')) \<and>
    (\<forall>k \<in> set [''education'', ''degree'', ''authorized'', ''sponsorship'', ''visa'', ''gender''].
        \<not> str_in k (lower ''Race / Ethnicity''))"
    by code_simp
  show ?thesis
    using handle_dropdown_empty_disclosure
        [of "[''Male'', ''Female'', ''Prefer not to say'']" "[''gender_disclosure'' \<mapsto> PBool True]"
            "''Gender''"]
      handle_dropdown_empty_disclosure
        [of "[''Asian'', ''White'', ''Decline to answer'']" "[''ethnicity_disclosure'' \<mapsto> PBool True]"
            "''Race / Ethnicity''"]
      g e
    by blast
qed

end
